theory Spec2Isabelle
  imports Complex_Main "HOL-Library.Sublist"
begin

section \<open>JavaScript numbers\<close>

text \<open>
  A JavaScript number is an IEEE-754 double. The model keeps every special value of the
  format (\<open>NaN\<close>, the two infinities, the two zeros) and the rules by which the
  operators produce and compare them. A finite value is carried as the real number it
  denotes and finite arithmetic is exact: rounding, overflow to an infinity and underflow
  to a zero are not part of the model. \<open>Fin 0\<close> is the positive zero, \<open>NZero\<close>
  the negative one.
\<close>

datatype jsnum = NaN | PInf | NInf | NZero | Fin real

fun is_nan :: "jsnum \<Rightarrow> bool" where
  "is_nan NaN = True"
| "is_nan _ = False"

fun is_inf :: "jsnum \<Rightarrow> bool" where
  "is_inf PInf = True"
| "is_inf NInf = True"
| "is_inf _ = False"

fun is_zero :: "jsnum \<Rightarrow> bool" where
  "is_zero NZero = True"
| "is_zero (Fin r) = (r = 0)"
| "is_zero _ = False"

text \<open>The sign bit of a number that is not NaN.\<close>

fun sign_neg :: "jsnum \<Rightarrow> bool" where
  "sign_neg NInf = True"
| "sign_neg NZero = True"
| "sign_neg (Fin r) = (r < 0)"
| "sign_neg _ = False"

text \<open>The real value of a finite number (both zeros are 0).\<close>

fun mag :: "jsnum \<Rightarrow> real" where
  "mag (Fin r) = r"
| "mag _ = 0"

definition zero_of :: "bool \<Rightarrow> jsnum" where
  "zero_of neg = (if neg then NZero else Fin 0)"

definition inf_of :: "bool \<Rightarrow> jsnum" where
  "inf_of neg = (if neg then NInf else PInf)"

text \<open>\<open>x + y\<close>: opposite infinities give NaN; a sum that is zero is \<open>+0\<close> unless both
  operands are \<open>-0\<close>.\<close>

fun jadd :: "jsnum \<Rightarrow> jsnum \<Rightarrow> jsnum" where
  "jadd NaN _ = NaN"
| "jadd _ NaN = NaN"
| "jadd PInf NInf = NaN"
| "jadd NInf PInf = NaN"
| "jadd PInf _ = PInf"
| "jadd _ PInf = PInf"
| "jadd NInf _ = NInf"
| "jadd _ NInf = NInf"
| "jadd NZero NZero = NZero"
| "jadd NZero (Fin b) = Fin b"
| "jadd (Fin a) NZero = Fin a"
| "jadd (Fin a) (Fin b) = Fin (a + b)"

text \<open>Unary minus flips the sign bit.\<close>

fun jneg :: "jsnum \<Rightarrow> jsnum" where
  "jneg NaN = NaN"
| "jneg PInf = NInf"
| "jneg NInf = PInf"
| "jneg NZero = Fin 0"
| "jneg (Fin r) = (if r = 0 then NZero else Fin (- r))"

text \<open>\<open>x - y\<close> is \<open>x + (-y)\<close>.\<close>

definition jsub :: "jsnum \<Rightarrow> jsnum \<Rightarrow> jsnum" where
  "jsub x y = jadd x (jneg y)"

text \<open>\<open>x * y\<close>: infinity times zero is NaN; the sign of the result is the exclusive or of
  the operands' signs.\<close>

definition jmul :: "jsnum \<Rightarrow> jsnum \<Rightarrow> jsnum" where
  "jmul x y =
     (if is_nan x \<or> is_nan y then NaN
      else if is_inf x \<or> is_inf y then
        (if is_zero x \<or> is_zero y then NaN else inf_of (sign_neg x \<noteq> sign_neg y))
      else if mag x * mag y = 0 then zero_of (sign_neg x \<noteq> sign_neg y)
      else Fin (mag x * mag y))"

text \<open>\<open>x / y\<close>: infinity over infinity and zero over zero are NaN; a nonzero number over
  zero is an infinity.\<close>

definition jdiv :: "jsnum \<Rightarrow> jsnum \<Rightarrow> jsnum" where
  "jdiv x y =
     (if is_nan x \<or> is_nan y then NaN
      else if is_inf x then
        (if is_inf y then NaN else inf_of (sign_neg x \<noteq> sign_neg y))
      else if is_inf y then zero_of (sign_neg x \<noteq> sign_neg y)
      else if is_zero y then
        (if is_zero x then NaN else inf_of (sign_neg x \<noteq> sign_neg y))
      else if mag x / mag y = 0 then zero_of (sign_neg x \<noteq> sign_neg y)
      else Fin (mag x / mag y))"

text \<open>\<open>x < y\<close>: false as soon as an operand is NaN; the two zeros are equal.\<close>

fun jlt :: "jsnum \<Rightarrow> jsnum \<Rightarrow> bool" where
  "jlt NaN _ = False"
| "jlt _ NaN = False"
| "jlt PInf _ = False"
| "jlt _ PInf = True"
| "jlt _ NInf = False"
| "jlt NInf _ = True"
| "jlt a b = (mag a < mag b)"

definition jgt :: "jsnum \<Rightarrow> jsnum \<Rightarrow> bool" where
  "jgt x y = jlt y x"

definition jge :: "jsnum \<Rightarrow> jsnum \<Rightarrow> bool" where
  "jge x y = (\<not> is_nan x \<and> \<not> is_nan y \<and> \<not> jlt x y)"

text \<open>\<open>Math.abs\<close>, \<open>Math.sqrt\<close> and \<open>Math.pow(x, 2)\<close>.\<close>

fun math_abs :: "jsnum \<Rightarrow> jsnum" where
  "math_abs NaN = NaN"
| "math_abs PInf = PInf"
| "math_abs NInf = PInf"
| "math_abs NZero = Fin 0"
| "math_abs (Fin r) = Fin \<bar>r\<bar>"

fun math_sqrt :: "jsnum \<Rightarrow> jsnum" where
  "math_sqrt NaN = NaN"
| "math_sqrt PInf = PInf"
| "math_sqrt NInf = NaN"
| "math_sqrt NZero = NZero"
| "math_sqrt (Fin r) = (if r < 0 then NaN else Fin (sqrt r))"

fun math_pow2 :: "jsnum \<Rightarrow> jsnum" where
  "math_pow2 NaN = NaN"
| "math_pow2 PInf = PInf"
| "math_pow2 NInf = PInf"
| "math_pow2 NZero = Fin 0"
| "math_pow2 (Fin r) = Fin (r * r)"

text \<open>A number is falsy when it is NaN or a zero.\<close>

definition num_truthy :: "jsnum \<Rightarrow> bool" where
  "num_truthy x = (\<not> is_nan x \<and> \<not> is_zero x)"

section \<open>The rule engine: \<open>checkNelsonRules\<close> (App.js)\<close>

text \<open>\<open>arr.slice(a, b)\<close> for \<open>0 \<le> a \<le> b\<close>; the end is clamped to the array's length.\<close>

definition js_slice :: "'a list \<Rightarrow> nat \<Rightarrow> nat \<Rightarrow> 'a list" where
  "js_slice xs a b = take (b - a) (drop a xs)"

text \<open>\<open>violations[i].push(r)\<close>. Every caller below has \<open>i < data.length\<close>, the length
  of \<open>violations\<close>.\<close>

definition push_at :: "nat \<Rightarrow> nat \<Rightarrow> nat list list \<Rightarrow> nat list list" where
  "push_at i r violations = violations[i := violations ! i @ [r]]"

text \<open>\<open>for (let i = start; i < n; i++) if (cond(i)) violations[i].push(r);\<close>\<close>

definition for_push :: "nat \<Rightarrow> nat \<Rightarrow> nat \<Rightarrow> (nat \<Rightarrow> bool) \<Rightarrow> nat list list \<Rightarrow> nat list list" where
  "for_push r start n cond violations =
     fold (\<lambda>i vs. if cond i then push_at i r vs else vs) [start..<n] violations"

text \<open>Rule 1: \<open>Math.abs(val - mean) > 3 * sd\<close>.\<close>

definition rule1 :: "jsnum list \<Rightarrow> jsnum \<Rightarrow> jsnum \<Rightarrow> nat \<Rightarrow> bool" where
  "rule1 data mean sd idx = jgt (math_abs (jsub (data ! idx) mean)) (jmul (Fin 3) sd)"

text \<open>Rule 2: the nine values up to \<open>i\<close> are all above or all below the mean.\<close>

definition rule2 :: "jsnum list \<Rightarrow> jsnum \<Rightarrow> nat \<Rightarrow> bool" where
  "rule2 data mean i =
     (let slice = js_slice data (i - 8) (i + 1)
      in list_all (\<lambda>v. jgt v mean) slice \<or> list_all (\<lambda>v. jlt v mean) slice)"

text \<open>Rule 3: \<open>slice.every((v, j) => j === 0 || v > slice[j - 1])\<close>, or the same with
  \<open><\<close>.\<close>

definition rule3 :: "jsnum list \<Rightarrow> nat \<Rightarrow> bool" where
  "rule3 data i =
     (let slice = js_slice data (i - 5) (i + 1);
          increasing = list_all (\<lambda>j. j = 0 \<or> jgt (slice ! j) (slice ! (j - 1))) [0..<length slice];
          decreasing = list_all (\<lambda>j. j = 0 \<or> jlt (slice ! j) (slice ! (j - 1))) [0..<length slice]
      in increasing \<or> decreasing)"

text \<open>Rule 4, the inner loop: \<open>alternating\<close> starts true and the loop leaves with false
  at the first \<open>j\<close> whose product of changes is \<open>>= 0\<close>.\<close>

function alternating_from :: "jsnum list \<Rightarrow> nat \<Rightarrow> bool" where
  "alternating_from slice j =
     (if j < length slice then
        (let currChange = jsub (slice ! j) (slice ! (j - 1));
             prevChange = jsub (slice ! (j - 1)) (slice ! (j - 2))
         in if jge (jmul currChange prevChange) (Fin 0) then False
            else alternating_from slice (j + 1))
      else True)"
  by pat_completeness auto
termination
  by (relation "measure (\<lambda>(slice, j). length slice - j)") auto

definition rule4 :: "jsnum list \<Rightarrow> nat \<Rightarrow> bool" where
  "rule4 data i = alternating_from (js_slice data (i - 13) (i + 1)) 2"

text \<open>Rules 5 and 6: count the values of the slice beyond two, or one, standard
  deviations.\<close>

definition rule5 :: "jsnum list \<Rightarrow> jsnum \<Rightarrow> jsnum \<Rightarrow> nat \<Rightarrow> bool" where
  "rule5 data mean sd i =
     (let slice = js_slice data (i - 2) (i + 1);
          beyond2sigma = length (filter (\<lambda>v. jgt (math_abs (jsub v mean)) (jmul (Fin 2) sd)) slice)
      in beyond2sigma \<ge> 2)"

definition rule6 :: "jsnum list \<Rightarrow> jsnum \<Rightarrow> jsnum \<Rightarrow> nat \<Rightarrow> bool" where
  "rule6 data mean sd i =
     (let slice = js_slice data (i - 4) (i + 1);
          beyond1sigma = length (filter (\<lambda>v. jgt (math_abs (jsub v mean)) sd) slice)
      in beyond1sigma \<ge> 4)"

text \<open>Rules 7 and 8: all fifteen values within, or all eight values beyond, one standard
  deviation.\<close>

definition rule7 :: "jsnum list \<Rightarrow> jsnum \<Rightarrow> jsnum \<Rightarrow> nat \<Rightarrow> bool" where
  "rule7 data mean sd i =
     list_all (\<lambda>v. jlt (math_abs (jsub v mean)) sd) (js_slice data (i - 14) (i + 1))"

definition rule8 :: "jsnum list \<Rightarrow> jsnum \<Rightarrow> jsnum \<Rightarrow> nat \<Rightarrow> bool" where
  "rule8 data mean sd i =
     list_all (\<lambda>v. jgt (math_abs (jsub v mean)) sd) (js_slice data (i - 7) (i + 1))"

text \<open>The eight passes over \<open>violations\<close>, in the order of the source. Rule 4 is inside
  \<open>if (data.length >= 14)\<close>.\<close>

definition checkNelsonRules :: "jsnum list \<Rightarrow> jsnum \<Rightarrow> jsnum \<Rightarrow> nat list list" where
  "checkNelsonRules data mean sd =
     (let n = length data;
          v0 = replicate n [];
          v1 = for_push 1 0 n (rule1 data mean sd) v0;
          v2 = for_push 2 8 n (rule2 data mean) v1;
          v3 = for_push 3 5 n (rule3 data) v2;
          v4 = (if n \<ge> 14 then for_push 4 13 n (rule4 data) v3 else v3);
          v5 = for_push 5 2 n (rule5 data mean sd) v4;
          v6 = for_push 6 4 n (rule6 data mean sd) v5;
          v7 = for_push 7 14 n (rule7 data mean sd) v6;
          v8 = for_push 8 7 n (rule8 data mean sd) v7
      in v8)"

section \<open>Statistics: \<open>calcStats\<close> (App.js)\<close>

record stats =
  avg :: jsnum
  sd :: jsnum
  rsd :: jsnum

text \<open>\<open>arr.length\<close> as a number.\<close>

definition js_length :: "'a list \<Rightarrow> jsnum" where
  "js_length arr = Fin (real (length arr))"

text \<open>\<open>arr.reduce(f, init)\<close> folds from the left.\<close>

definition calcStats :: "jsnum list \<Rightarrow> stats" where
  "calcStats arr =
     (let avg = jdiv (foldl (\<lambda>a b. jadd a b) (Fin 0) arr) (js_length arr);
          sd = math_sqrt (jdiv (foldl (\<lambda>sum val. jadd sum (math_pow2 (jsub val avg))) (Fin 0) arr)
                               (js_length arr));
          rsd = jmul (jdiv sd avg) (Fin 100)
      in \<lparr>avg = avg, sd = sd, rsd = rsd\<rparr>)"

section \<open>JavaScript values, \<open>||\<close>, \<open>===\<close> and \<open>parseFloat\<close>\<close>

text \<open>The primitive values a spreadsheet cell, a sample's id or a form field can hold.\<close>

datatype jsval = Undefined | Null | JBool bool | JNum jsnum | JStr string

fun truthy :: "jsval \<Rightarrow> bool" where
  "truthy Undefined = False"
| "truthy Null = False"
| "truthy (JBool b) = b"
| "truthy (JNum n) = num_truthy n"
| "truthy (JStr s) = (s \<noteq> [])"

text \<open>\<open>a || b\<close>.\<close>

definition js_or :: "jsval \<Rightarrow> jsval \<Rightarrow> jsval" where
  "js_or a b = (if truthy a then a else b)"

text \<open>\<open>x === y\<close> on numbers: NaN equals nothing, the two zeros are equal.\<close>

definition num_eq :: "jsnum \<Rightarrow> jsnum \<Rightarrow> bool" where
  "num_eq x y = (\<not> is_nan x \<and> \<not> is_nan y \<and> (x = y \<or> (is_zero x \<and> is_zero y)))"

fun js_strict_eq :: "jsval \<Rightarrow> jsval \<Rightarrow> bool" where
  "js_strict_eq Undefined Undefined = True"
| "js_strict_eq Null Null = True"
| "js_strict_eq (JBool a) (JBool b) = (a = b)"
| "js_strict_eq (JNum a) (JNum b) = num_eq a b"
| "js_strict_eq (JStr a) (JStr b) = (a = b)"
| "js_strict_eq _ _ = False"

text \<open>
  \<open>parseFloat\<close> on a string (ECMAScript, \<open>parseFloat\<close> and \<open>StrDecimalLiteral\<close>):
  leading white space is dropped, then the longest prefix of the form
  \<open>[+-] (Infinity | digits [. [digits]] [exponent] | . digits [exponent])\<close> is read, the
  exponent being \<open>e\<close> or \<open>E\<close>, an optional sign and at least one digit. With no such
  prefix the result is NaN. Strings are byte strings here, so the white space is the
  ASCII part of JavaScript's: tab, line feed, vertical tab, form feed, carriage return,
  space.
\<close>

definition is_ws :: "char \<Rightarrow> bool" where
  "is_ws c = ((of_char c :: nat) \<in> {9, 10, 11, 12, 13, 32})"

definition is_digit :: "char \<Rightarrow> bool" where
  "is_digit c = (48 \<le> (of_char c :: nat) \<and> (of_char c :: nat) \<le> 57)"

definition digits_val :: "string \<Rightarrow> nat" where
  "digits_val ds = foldl (\<lambda>acc c. acc * 10 + ((of_char c :: nat) - 48)) 0 ds"

text \<open>The exponent part at the head of a string: its value, 0 when there is none.\<close>

definition exponent_part :: "string \<Rightarrow> int" where
  "exponent_part s =
     (case s of
        [] \<Rightarrow> 0
      | c # r \<Rightarrow>
          if c = CHR ''e'' \<or> c = CHR ''E'' then
            (case r of
               [] \<Rightarrow> 0
             | d # r' \<Rightarrow>
                 if d = CHR ''+'' then int (digits_val (takeWhile is_digit r'))
                 else if d = CHR ''-'' then - int (digits_val (takeWhile is_digit r'))
                 else int (digits_val (takeWhile is_digit r)))
          else 0)"

definition pow10 :: "int \<Rightarrow> real" where
  "pow10 e = (if e \<ge> 0 then 10 ^ nat e else 1 / 10 ^ nat (- e))"

text \<open>An unsigned literal: \<open>None\<close> when no prefix is one, otherwise its value (an
  infinity or a real number that is not negative).\<close>

definition unsigned_literal :: "string \<Rightarrow> jsnum option" where
  "unsigned_literal s =
     (if take 8 s = ''Infinity'' then Some PInf
      else
        (let ip = takeWhile is_digit s;
             r1 = dropWhile is_digit s
         in case r1 of
              c # r2 \<Rightarrow>
                if c = CHR ''.'' then
                  (let fp = takeWhile is_digit r2;
                       r3 = dropWhile is_digit r2
                   in if ip = [] \<and> fp = [] then None
                      else Some (Fin ((real (digits_val ip) + real (digits_val fp) / 10 ^ length fp)
                                       * pow10 (exponent_part r3))))
                else if ip = [] then None
                else Some (Fin (real (digits_val ip) * pow10 (exponent_part r1)))
            | [] \<Rightarrow> if ip = [] then None else Some (Fin (real (digits_val ip)))))"

definition parseFloat_str :: "string \<Rightarrow> jsnum" where
  "parseFloat_str inputString =
     (let trimmed = dropWhile is_ws inputString;
          neg = (take 1 trimmed = ''-'');
          body = (if take 1 trimmed = ''-'' \<or> take 1 trimmed = ''+'' then drop 1 trimmed else trimmed)
      in case unsigned_literal body of
           None \<Rightarrow> NaN
         | Some v \<Rightarrow> if neg then jneg v else v)"

text \<open>
  \<open>parseFloat(v)\<close> converts \<open>v\<close> to a string first. The string of a number reads back as
  that number, except that \<open>-0\<close> prints as \<open>0\<close>; \<open>undefined\<close>, \<open>null\<close>, \<open>true\<close> and
  \<open>false\<close> print as words that are no number.
\<close>

fun parseFloat :: "jsval \<Rightarrow> jsnum" where
  "parseFloat (JStr s) = parseFloat_str s"
| "parseFloat (JNum n) = (if n = NZero then Fin 0 else n)"
| "parseFloat _ = NaN"

section \<open>The backend: loading the series (\<open>readExcelFile\<close>)\<close>

record sample =
  sample_id :: jsval
  weight :: jsnum
  hardness :: jsnum

text \<open>A row of \<open>XLSX.utils.sheet_to_json\<close>: an object from column headers to cells; an
  empty cell is an absent property, which reads as \<open>undefined\<close>.\<close>

type_synonym row = "(string \<times> jsval) list"

definition get_prop :: "row \<Rightarrow> string \<Rightarrow> jsval" where
  "get_prop r k = (case map_of r k of None \<Rightarrow> Undefined | Some v \<Rightarrow> v)"

text \<open>What the backing file can be when it is read: absent, unreadable (\<open>XLSX.readFile\<close>
  or \<open>sheet_to_json\<close> throws an error with this message), or a sheet with these rows.\<close>

datatype excel_file = Missing | Unreadable string | Rows "row list"

text \<open>The literal returned when the file does not exist (lines 35 to 41).\<close>

definition dummy_not_found :: "sample list" where
  "dummy_not_found =
     [\<lparr>sample_id = JNum (Fin 1), weight = Fin 27.2, hardness = Fin 10.1\<rparr>,
      \<lparr>sample_id = JNum (Fin 2), weight = Fin 26.8, hardness = Fin 9.8\<rparr>,
      \<lparr>sample_id = JNum (Fin 3), weight = Fin 27.5, hardness = Fin 10.3\<rparr>,
      \<lparr>sample_id = JNum (Fin 4), weight = Fin 26.5, hardness = Fin 9.5\<rparr>,
      \<lparr>sample_id = JNum (Fin 5), weight = Fin 27.8, hardness = Fin 10.8\<rparr>]"

text \<open>The literal returned by the \<open>catch\<close> block (lines 61 to 67).\<close>

definition dummy_on_error :: "sample list" where
  "dummy_on_error =
     [\<lparr>sample_id = JNum (Fin 1), weight = Fin 27.2, hardness = Fin 10.1\<rparr>,
      \<lparr>sample_id = JNum (Fin 2), weight = Fin 26.8, hardness = Fin 9.8\<rparr>,
      \<lparr>sample_id = JNum (Fin 3), weight = Fin 27.5, hardness = Fin 10.3\<rparr>,
      \<lparr>sample_id = JNum (Fin 4), weight = Fin 26.5, hardness = Fin 9.5\<rparr>,
      \<lparr>sample_id = JNum (Fin 5), weight = Fin 27.8, hardness = Fin 10.8\<rparr>]"

text \<open>The callback of \<open>jsonData.map((row, index) => ...)\<close>.\<close>

definition transform_row :: "row \<Rightarrow> nat \<Rightarrow> sample" where
  "transform_row r index =
     \<lparr>sample_id = js_or (get_prop r ''id'') (JNum (Fin (real (index + 1)))),
      weight = parseFloat (js_or (js_or (get_prop r ''weight'') (get_prop r ''Weight'')) (JNum (Fin 0))),
      hardness = parseFloat (js_or (js_or (get_prop r ''hardness'') (get_prop r ''Hardness'')) (JNum (Fin 0)))\<rparr>"

definition transformedData :: "row list \<Rightarrow> sample list" where
  "transformedData jsonData = map (\<lambda>(index, r). transform_row r index) (List.enumerate 0 jsonData)"

text \<open>The \<open>try\<close> block: \<open>Inl\<close> is the message of a thrown error, \<open>Inr\<close> a returned series.\<close>

definition readExcelFile_try :: "excel_file \<Rightarrow> string + sample list" where
  "readExcelFile_try f =
     (case f of
        Missing \<Rightarrow> Inr dummy_not_found
      | Unreadable msg \<Rightarrow> Inl msg
      | Rows jsonData \<Rightarrow> Inr (transformedData jsonData))"

text \<open>The whole function: the \<open>catch\<close> block logs the message and returns its literal.\<close>

definition readExcelFile :: "excel_file \<Rightarrow> sample list" where
  "readExcelFile f =
     (case readExcelFile_try f of
        Inr data \<Rightarrow> data
      | Inl msg \<Rightarrow> dummy_on_error)"

section \<open>The backend: the shared series, the file and the broadcasts\<close>

text \<open>
  The server's state: \<open>currentData\<close>; the connected sockets; for every socket the
  \<open>data-update\<close> messages emitted to it so far, oldest first; the file at
  \<open>EXCEL_FILE_PATH\<close>; whether the watcher was installed (it is, once and for all, when
  the file exists at startup); and whether the file has changed since the watcher last
  reported.
\<close>

type_synonym socket = nat

record server =
  currentData :: "sample list"
  sockets :: "socket set"
  inbox :: "socket \<Rightarrow> sample list list"
  disk :: excel_file
  watching :: bool
  changed :: bool

text \<open>Startup: \<open>if (fs.existsSync(EXCEL_FILE_PATH))\<close> installs the watcher, and
  \<open>currentData = readExcelFile()\<close>.\<close>

definition startup :: "excel_file \<Rightarrow> server" where
  "startup f =
     \<lparr>currentData = readExcelFile f, sockets = {}, inbox = (\<lambda>s. []), disk = f,
      watching = (f \<noteq> Missing), changed = False\<rparr>"

text \<open>Emit one \<open>data-update\<close> to the sockets of \<open>targets\<close>.\<close>

definition emit_to :: "socket set \<Rightarrow> sample list \<Rightarrow> server \<Rightarrow> server" where
  "emit_to targets d st =
     st\<lparr>inbox := (\<lambda>s. if s \<in> targets then inbox st s @ [d] else inbox st s)\<rparr>"

text \<open>\<open>io.on('connection')\<close>: the new socket is sent the current data.\<close>

definition on_connection :: "socket \<Rightarrow> server \<Rightarrow> server" where
  "on_connection sock st = emit_to {sock} (currentData st) (st\<lparr>sockets := insert sock (sockets st)\<rparr>)"

text \<open>The row \<open>XLSX.utils.json_to_sheet\<close> makes of a sample: one cell per property, none
  for an id that is \<open>undefined\<close> or \<open>null\<close>.\<close>

definition sample_row :: "sample \<Rightarrow> row" where
  "sample_row s =
     (case sample_id s of
        Undefined \<Rightarrow> []
      | Null \<Rightarrow> []
      | v \<Rightarrow> [(''id'', v)])
     @ [(''weight'', JNum (weight s)), (''hardness'', JNum (hardness s))]"

text \<open>\<open>writeExcelFile(data)\<close>: when \<open>XLSX.writeFile\<close> succeeds (\<open>ok\<close>) the file holds the
  sheet made of \<open>data\<close>, and has changed; when it throws, the \<open>catch\<close> block logs the
  error and the file is as before.\<close>

definition writeExcelFile :: "sample list \<Rightarrow> bool \<Rightarrow> server \<Rightarrow> server" where
  "writeExcelFile data ok st =
     (if ok then st\<lparr>disk := Rows (map sample_row data), changed := True\<rparr> else st)"

text \<open>\<open>socket.on('update-data')\<close>: \<open>currentData = newData\<close>, \<open>writeExcelFile(newData)\<close>,
  then \<open>socket.broadcast.emit\<close>, which reaches every connected socket but the sender.\<close>

definition on_update_data :: "socket \<Rightarrow> sample list \<Rightarrow> bool \<Rightarrow> server \<Rightarrow> server" where
  "on_update_data sock newData ok st =
     (let st1 = st\<lparr>currentData := newData\<rparr>;
          st2 = writeExcelFile newData ok st1
      in emit_to (sockets st2 - {sock}) newData st2)"

text \<open>\<open>watcher.on('change')\<close>, which fires when the watcher is installed and the file has
  changed: the file is read again, \<open>currentData\<close> is set, and \<open>io.emit\<close> reaches every
  connected socket.\<close>

definition on_file_change :: "server \<Rightarrow> server" where
  "on_file_change st =
     (if watching st \<and> changed st then
        (let newData = readExcelFile (disk st);
             st1 = st\<lparr>currentData := newData, changed := False\<rparr>
         in emit_to (sockets st1) newData st1)
      else st)"

text \<open>Someone else replaces the file.\<close>

definition external_edit :: "excel_file \<Rightarrow> server \<Rightarrow> server" where
  "external_edit f st = st\<lparr>disk := f, changed := True\<rparr>"

section \<open>The table editor: \<open>updateSample\<close> and \<open>deleteSample\<close> (App.js)\<close>

text \<open>The keys of a sample, for the computed key \<open>[field]\<close>.\<close>

datatype sample_key = K_id | K_weight | K_hardness

text \<open>\<open>{ ...s, [field]: v }\<close>.\<close>

fun with_field :: "sample \<Rightarrow> sample_key \<Rightarrow> jsnum \<Rightarrow> sample" where
  "with_field s K_id v = s\<lparr>sample_id := JNum v\<rparr>"
| "with_field s K_weight v = s\<lparr>weight := v\<rparr>"
| "with_field s K_hardness v = s\<lparr>hardness := v\<rparr>"

text \<open>\<open>n || 0\<close> on a number.\<close>

definition or_zero :: "jsnum \<Rightarrow> jsnum" where
  "or_zero n = (if num_truthy n then n else Fin 0)"

definition updateSample :: "jsval \<Rightarrow> sample_key \<Rightarrow> jsval \<Rightarrow> sample list \<Rightarrow> sample list" where
  "updateSample ident fld val samples =
     map (\<lambda>s. if js_strict_eq (sample_id s) ident
              then with_field s fld (or_zero (parseFloat val)) else s) samples"

definition deleteSample :: "jsval \<Rightarrow> sample list \<Rightarrow> sample list" where
  "deleteSample ident samples = filter (\<lambda>s. \<not> js_strict_eq (sample_id s) ident) samples"

section \<open>Notions used to state the properties\<close>

text \<open>A number that is neither NaN nor an infinity.\<close>

definition is_finite :: "jsnum \<Rightarrow> bool" where
  "is_finite x = (\<not> is_nan x \<and> \<not> is_inf x)"

text \<open>The condition under which the loops of \<open>checkNelsonRules\<close> push rule \<open>r\<close> at index
  \<open>i\<close>: the loop of the rule reaches \<open>i\<close> and its test holds there.\<close>

definition flagged :: "jsnum list \<Rightarrow> jsnum \<Rightarrow> jsnum \<Rightarrow> nat \<Rightarrow> nat \<Rightarrow> bool" where
  "flagged data mean sdev i r =
     ((r = 1 \<and> rule1 data mean sdev i) \<or>
      (r = 2 \<and> 8 \<le> i \<and> rule2 data mean i) \<or>
      (r = 3 \<and> 5 \<le> i \<and> rule3 data i) \<or>
      (r = 4 \<and> 13 \<le> i \<and> rule4 data i) \<or>
      (r = 5 \<and> 2 \<le> i \<and> rule5 data mean sdev i) \<or>
      (r = 6 \<and> 4 \<le> i \<and> rule6 data mean sdev i) \<or>
      (r = 7 \<and> 14 \<le> i \<and> rule7 data mean sdev i) \<or>
      (r = 8 \<and> 7 \<le> i \<and> rule8 data mean sdev i))"

text \<open>The specification's table of minimum window sizes, rules 1 to 8.\<close>

definition spec_min_window :: "nat \<Rightarrow> nat" where
  "spec_min_window r = [1, 9, 6, 14, 3, 5, 15, 8] ! (r - 1)"

text \<open>The specification's wording of rule 4: two differences have strictly opposite
  signs when one is below zero and the other above; a window alternates when every
  difference does so against the one before it.\<close>

definition spec_opposite_sign :: "jsnum \<Rightarrow> jsnum \<Rightarrow> bool" where
  "spec_opposite_sign d e = ((jlt d (Fin 0) \<and> jgt e (Fin 0)) \<or> (jgt d (Fin 0) \<and> jlt e (Fin 0)))"

definition spec_alternates :: "jsnum list \<Rightarrow> bool" where
  "spec_alternates w =
     list_all (\<lambda>j. spec_opposite_sign (jsub (w ! j) (w ! (j - 1))) (jsub (w ! (j - 1)) (w ! (j - 2))))
       [2..<length w]"

text \<open>The code's test of rule 4 at one position of the window: the product of the two
  changes is not \<open>>= 0\<close>.\<close>

definition product_not_ge_zero :: "jsnum list \<Rightarrow> nat \<Rightarrow> bool" where
  "product_not_ge_zero w j =
     (\<not> jge (jmul (jsub (w ! j) (w ! (j - 1))) (jsub (w ! (j - 1)) (w ! (j - 2)))) (Fin 0))"

text \<open>The number read from a pair of cells, the lower-case column first:
  \<open>parseFloat(a || b || 0)\<close>.\<close>

definition cell_number :: "jsval \<Rightarrow> jsval \<Rightarrow> jsnum" where
  "cell_number a b = parseFloat (js_or (js_or a b) (JNum (Fin 0)))"

text \<open>The value a sample holds under a key.\<close>

fun field_of :: "sample \<Rightarrow> sample_key \<Rightarrow> jsval" where
  "field_of s K_id = sample_id s"
| "field_of s K_weight = JNum (weight s)"
| "field_of s K_hardness = JNum (hardness s)"

section \<open>The rule engine: what each index of the result holds\<close>

lemma length_push_at: "length (push_at i r vs) = length vs"
  by (simp add: push_at_def)

lemma for_push_Suc:
  "for_push r s (Suc n) c vs =
     (if s \<le> n then (if c n then push_at n r (for_push r s n c vs) else for_push r s n c vs)
      else vs)"
  by (simp add: for_push_def)

lemma length_for_push: "length (for_push r s n c vs) = length vs"
  by (induction n) (simp_all add: for_push_Suc length_push_at for_push_def)

lemma nth_for_push:
  "n \<le> length vs \<Longrightarrow> k < length vs \<Longrightarrow>
   for_push r s n c vs ! k = (if s \<le> k \<and> k < n \<and> c k then vs ! k @ [r] else vs ! k)"
proof (induction n arbitrary: k)
  case 0
  then show ?case by (simp add: for_push_def)
next
  case (Suc n)
  have n: "n < length vs" using Suc.prems by simp
  have IH: "for_push r s n c vs ! j = (if s \<le> j \<and> j < n \<and> c j then vs ! j @ [r] else vs ! j)"
    if "j < length vs" for j
    using Suc.IH [of j] n that by simp
  show ?case
  proof (cases "s \<le> n")
    case True
    show ?thesis
    proof (cases "c n")
      case True
      with \<open>s \<le> n\<close> have "for_push r s (Suc n) c vs = push_at n r (for_push r s n c vs)"
        by (simp add: for_push_Suc)
      then show ?thesis
        using IH [of k] IH [of n] n True \<open>s \<le> n\<close> Suc.prems(2)
        by (auto simp: push_at_def length_for_push nth_list_update less_Suc_eq)
    next
      case False
      with \<open>s \<le> n\<close> have "for_push r s (Suc n) c vs = for_push r s n c vs"
        by (simp add: for_push_Suc)
      then show ?thesis
        using IH [of k] False Suc.prems(2) by (auto simp: less_Suc_eq)
    qed
  next
    case False
    then have "for_push r s (Suc n) c vs = vs"
      by (simp add: for_push_Suc)
    then show ?thesis
      using False by auto
  qed
qed

lemma nth_for_push_append:
  "length vs = n \<Longrightarrow> k < n \<Longrightarrow>
   for_push r s n c vs ! k = vs ! k @ (if s \<le> k \<and> c k then [r] else [])"
  by (simp add: nth_for_push)

lemma nth_guarded_for_push:
  "length vs = n \<Longrightarrow> k < n \<Longrightarrow>
   (if n \<ge> 14 then for_push r 13 n c vs else vs) ! k = vs ! k @ (if 13 \<le> k \<and> c k then [r] else [])"
  by (simp add: nth_for_push)

lemma checkNelsonRules_length: "length (checkNelsonRules data mean sdev) = length data"
  by (simp add: checkNelsonRules_def Let_def length_for_push)

lemma checkNelsonRules_nth_append:
  assumes "i < length data"
  shows "checkNelsonRules data mean sdev ! i =
      (if rule1 data mean sdev i then [1] else []) @
      (if 8 \<le> i \<and> rule2 data mean i then [2] else []) @
      (if 5 \<le> i \<and> rule3 data i then [3] else []) @
      (if 13 \<le> i \<and> rule4 data i then [4] else []) @
      (if 2 \<le> i \<and> rule5 data mean sdev i then [5] else []) @
      (if 4 \<le> i \<and> rule6 data mean sdev i then [6] else []) @
      (if 14 \<le> i \<and> rule7 data mean sdev i then [7] else []) @
      (if 7 \<le> i \<and> rule8 data mean sdev i then [8] else [])"
proof -
  define n where "n = length data"
  define v1 where "v1 = for_push 1 0 n (rule1 data mean sdev) (replicate n [])"
  define v2 where "v2 = for_push 2 8 n (rule2 data mean) v1"
  define v3 where "v3 = for_push 3 5 n (rule3 data) v2"
  define v4 where "v4 = (if n \<ge> 14 then for_push 4 13 n (rule4 data) v3 else v3)"
  define v5 where "v5 = for_push 5 2 n (rule5 data mean sdev) v4"
  define v6 where "v6 = for_push 6 4 n (rule6 data mean sdev) v5"
  define v7 where "v7 = for_push 7 14 n (rule7 data mean sdev) v6"
  define v8 where "v8 = for_push 8 7 n (rule8 data mean sdev) v7"
  have i: "i < n" using assms by (simp add: n_def)
  have l1: "length v1 = n" by (simp add: v1_def length_for_push)
  have l2: "length v2 = n" by (simp add: v2_def length_for_push l1)
  have l3: "length v3 = n" by (simp add: v3_def length_for_push l2)
  have l4: "length v4 = n" by (simp add: v4_def length_for_push l3)
  have l5: "length v5 = n" by (simp add: v5_def length_for_push l4)
  have l6: "length v6 = n" by (simp add: v6_def length_for_push l5)
  have l7: "length v7 = n" by (simp add: v7_def length_for_push l6)
  have e1: "v1 ! i = (if rule1 data mean sdev i then [1] else [])"
    unfolding v1_def using i by (subst nth_for_push_append) simp_all
  have e2: "v2 ! i = v1 ! i @ (if 8 \<le> i \<and> rule2 data mean i then [2] else [])"
    unfolding v2_def using l1 i by (rule nth_for_push_append)
  have e3: "v3 ! i = v2 ! i @ (if 5 \<le> i \<and> rule3 data i then [3] else [])"
    unfolding v3_def using l2 i by (rule nth_for_push_append)
  have e4: "v4 ! i = v3 ! i @ (if 13 \<le> i \<and> rule4 data i then [4] else [])"
    unfolding v4_def using l3 i by (rule nth_guarded_for_push)
  have e5: "v5 ! i = v4 ! i @ (if 2 \<le> i \<and> rule5 data mean sdev i then [5] else [])"
    unfolding v5_def using l4 i by (rule nth_for_push_append)
  have e6: "v6 ! i = v5 ! i @ (if 4 \<le> i \<and> rule6 data mean sdev i then [6] else [])"
    unfolding v6_def using l5 i by (rule nth_for_push_append)
  have e7: "v7 ! i = v6 ! i @ (if 14 \<le> i \<and> rule7 data mean sdev i then [7] else [])"
    unfolding v7_def using l6 i by (rule nth_for_push_append)
  have e8: "v8 ! i = v7 ! i @ (if 7 \<le> i \<and> rule8 data mean sdev i then [8] else [])"
    unfolding v8_def using l7 i by (rule nth_for_push_append)
  have "checkNelsonRules data mean sdev = v8"
    by (simp add: checkNelsonRules_def Let_def v8_def v7_def v6_def v5_def v4_def v3_def v2_def v1_def n_def)
  then show ?thesis
    by (simp only: e1 e2 e3 e4 e5 e6 e7 e8 append_assoc)
qed

lemma checkNelsonRules_nth:
  assumes "i < length data"
  shows "checkNelsonRules data mean sdev ! i = filter (flagged data mean sdev i) [1, 2, 3, 4, 5, 6, 7, 8]"
  unfolding checkNelsonRules_nth_append [OF assms]
  by (simp add: flagged_def)

lemma checkNelsonRules_mem:
  assumes "i < length data"
  shows "r \<in> set (checkNelsonRules data mean sdev ! i) \<longleftrightarrow> flagged data mean sdev i r"
  unfolding checkNelsonRules_nth [OF assms]
  by (auto simp: flagged_def)


section \<open>Rule 4: the inner loop and the window\<close>

declare alternating_from.simps [simp del]

lemma jlt_irrefl: "\<not> jlt x x"
  by (cases x) simp_all

lemma alternating_from_iff:
  "alternating_from w j \<longleftrightarrow> (\<forall>k. j \<le> k \<and> k < length w \<longrightarrow> product_not_ge_zero w k)"
proof (induction w j rule: alternating_from.induct)
  case (1 slice j)
  show ?case
  proof (cases "j < length slice")
    case False
    then show ?thesis by (subst alternating_from.simps) auto
  next
    case True
    show ?thesis
    proof (cases "product_not_ge_zero slice j")
      case False
      then have "\<not> alternating_from slice j"
        using True by (subst alternating_from.simps) (simp add: product_not_ge_zero_def Let_def)
      moreover have "\<not> (\<forall>k. j \<le> k \<and> k < length slice \<longrightarrow> product_not_ge_zero slice k)"
        using False True by blast
      ultimately show ?thesis by simp
    next
      case pj: True
      then have "alternating_from slice j = alternating_from slice (j + 1)"
        using True by (subst alternating_from.simps) (simp add: product_not_ge_zero_def Let_def)
      also have "\<dots> \<longleftrightarrow> (\<forall>k. j + 1 \<le> k \<and> k < length slice \<longrightarrow> product_not_ge_zero slice k)"
        using "1.IH" True pj by (simp add: product_not_ge_zero_def Let_def)
      also have "\<dots> \<longleftrightarrow> (\<forall>k. j \<le> k \<and> k < length slice \<longrightarrow> product_not_ge_zero slice k)"
      proof (intro iffI allI impI)
        fix k
        assume a: "\<forall>k. j + 1 \<le> k \<and> k < length slice \<longrightarrow> product_not_ge_zero slice k"
          and b: "j \<le> k \<and> k < length slice"
        show "product_not_ge_zero slice k"
        proof (cases "k = j")
          case True
          with pj show ?thesis by simp
        next
          case False
          with b have "j + 1 \<le> k \<and> k < length slice" by simp
          with a show ?thesis by simp
        qed
      next
        fix k
        assume a: "\<forall>k. j \<le> k \<and> k < length slice \<longrightarrow> product_not_ge_zero slice k"
          and b: "j + 1 \<le> k \<and> k < length slice"
        then have "j \<le> k \<and> k < length slice" by simp
        with a show "product_not_ge_zero slice k" by simp
      qed
      finally show ?thesis .
    qed
  qed
qed



lemma length_window: "w \<le> i \<Longrightarrow> i < length data \<Longrightarrow> length (js_slice data (i - w) (i + 1)) = Suc w"
  by (simp add: js_slice_def)

lemma rule4_iff:
  assumes "13 \<le> i" "i < length data"
  shows "rule4 data i \<longleftrightarrow> (\<forall>j\<in>{2..<14}. product_not_ge_zero (js_slice data (i - 13) (i + 1)) j)"
  using length_window [OF assms] by (auto simp: rule4_def alternating_from_iff)

lemma finite_jsub: "is_finite a \<Longrightarrow> is_finite b \<Longrightarrow> is_finite (jsub a b) \<and> mag (jsub a b) = mag a - mag b"
  by (cases a; cases b) (simp_all add: is_finite_def jsub_def)

lemma finite_jmul: "is_finite a \<Longrightarrow> is_finite b \<Longrightarrow> is_finite (jmul a b) \<and> mag (jmul a b) = mag a * mag b"
  by (cases a; cases b) (simp_all add: is_finite_def jmul_def zero_of_def)

lemma finite_jge_zero: "is_finite p \<Longrightarrow> jge p (Fin 0) \<longleftrightarrow> 0 \<le> mag p"
  by (cases p) (auto simp: is_finite_def jge_def)

lemma finite_jlt_zero: "is_finite p \<Longrightarrow> jlt p (Fin 0) \<longleftrightarrow> mag p < 0"
  by (cases p) (auto simp: is_finite_def)

lemma finite_jgt_zero: "is_finite p \<Longrightarrow> jgt p (Fin 0) \<longleftrightarrow> 0 < mag p"
  by (cases p) (auto simp: is_finite_def jgt_def)

lemma finite_product_test:
  assumes "is_finite a" "is_finite b" "is_finite c"
  shows "\<not> jge (jmul (jsub a b) (jsub b c)) (Fin 0) \<longleftrightarrow> spec_opposite_sign (jsub a b) (jsub b c)"
    and "mag a = mag b \<Longrightarrow> jge (jmul (jsub a b) (jsub b c)) (Fin 0)"
    and "mag b = mag c \<Longrightarrow> jge (jmul (jsub a b) (jsub b c)) (Fin 0)"
proof -
  note d = finite_jsub [OF assms(1,2)] and e = finite_jsub [OF assms(2,3)]
  note p = finite_jmul [of "jsub a b" "jsub b c"]
  show "\<not> jge (jmul (jsub a b) (jsub b c)) (Fin 0) \<longleftrightarrow> spec_opposite_sign (jsub a b) (jsub b c)"
    using d e p
    by (auto simp add: finite_jge_zero finite_jlt_zero finite_jgt_zero spec_opposite_sign_def
        not_le mult_less_0_iff)
  show "mag a = mag b \<Longrightarrow> jge (jmul (jsub a b) (jsub b c)) (Fin 0)"
    using d e p by (simp add: finite_jge_zero)
  show "mag b = mag c \<Longrightarrow> jge (jmul (jsub a b) (jsub b c)) (Fin 0)"
    using d e p by (simp add: finite_jge_zero)
qed


section \<open>The shape of the result\<close>

text \<open>
  Claim C9. \<open>checkNelsonRules\<close> returns one list of rule numbers per input value, as
  many as the input has and in its order: the list at index \<open>i\<close> holds exactly the rules
  whose loop reaches \<open>i\<close> and whose test holds on the window ending at \<open>i\<close>. Every such
  list holds only numbers from 1 to 8, each at most once, in ascending order.
\<close>

theorem checkNelsonRules_shape:
  "length (checkNelsonRules data mean sdev) = length data \<and>
   (\<forall>i<length data.
      set (checkNelsonRules data mean sdev ! i) \<subseteq> {1..8} \<and>
      distinct (checkNelsonRules data mean sdev ! i) \<and>
      sorted_wrt (<) (checkNelsonRules data mean sdev ! i) \<and>
      (\<forall>r. r \<in> set (checkNelsonRules data mean sdev ! i) \<longleftrightarrow> flagged data mean sdev i r))"
proof (intro conjI allI impI)
  show "length (checkNelsonRules data mean sdev) = length data"
    by (rule checkNelsonRules_length)
next
  fix i assume i: "i < length data"
  have asc: "sorted_wrt (<) [1, 2, 3, 4, 5, 6, 7, 8::nat]" by simp
  show "set (checkNelsonRules data mean sdev ! i) \<subseteq> {1..8}"
    unfolding checkNelsonRules_nth [OF i] by auto
  show "sorted_wrt (<) (checkNelsonRules data mean sdev ! i)"
    unfolding checkNelsonRules_nth [OF i] using asc by (rule sorted_wrt_filter)
  then show "distinct (checkNelsonRules data mean sdev ! i)"
    by (simp add: strict_sorted_iff)
  show "r \<in> set (checkNelsonRules data mean sdev ! i) \<longleftrightarrow> flagged data mean sdev i r" for r
    by (rule checkNelsonRules_mem [OF i])
qed


theorem checkNelsonRules_shape_witness:
  "8 < length (map Fin [1, 2, 3, 4, 5, 6, 7, 8, 9]) \<and>
   length (checkNelsonRules (map Fin [1, 2, 3, 4, 5, 6, 7, 8, 9]) (Fin 100) (Fin 1)) = 9 \<and>
   set (checkNelsonRules (map Fin [1, 2, 3, 4, 5, 6, 7, 8, 9]) (Fin 100) (Fin 1) ! 8) \<subseteq> {1..8} \<and>
   distinct (checkNelsonRules (map Fin [1, 2, 3, 4, 5, 6, 7, 8, 9]) (Fin 100) (Fin 1) ! 8) \<and>
   sorted_wrt (<) (checkNelsonRules (map Fin [1, 2, 3, 4, 5, 6, 7, 8, 9]) (Fin 100) (Fin 1) ! 8)"
proof -
  have h: "8 < length (map Fin [1, 2, 3, 4, 5, 6, 7, 8, 9])" by simp
  show ?thesis
    using h checkNelsonRules_shape [of "map Fin [1, 2, 3, 4, 5, 6, 7, 8, 9]" "Fin 100" "Fin 1"]
    by simp
qed

section \<open>Minimum windows\<close>

text \<open>
  Claim C7. With the minimum window sizes 1, 9, 6, 14, 3, 5, 15, 8 of rules 1 to 8, no index
  \<open>i\<close> below the window size of rule \<open>r\<close> minus one has \<open>r\<close> in its list, whatever the
  values, the mean and the standard deviation.
\<close>

theorem window_minimums:
  "i < length data \<Longrightarrow> r \<in> {1..8} \<Longrightarrow> i < spec_min_window r - 1 \<Longrightarrow>
   r \<notin> set (checkNelsonRules data mean sdev ! i)"
proof -
  assume i: "i < length data" and r: "r \<in> {1..8}" and w: "i < spec_min_window r - 1"
  from r have "r = 1 \<or> r = 2 \<or> r = 3 \<or> r = 4 \<or> r = 5 \<or> r = 6 \<or> r = 7 \<or> r = 8"
    by auto
  with w have "\<not> flagged data mean sdev i r"
    by (auto simp: flagged_def spec_min_window_def)
  then show ?thesis
    by (simp add: checkNelsonRules_mem [OF i])
qed

theorem window_minimums_witness:
  "3 < length (map Fin [1, 2, 3, 4, 5]) \<and> (2::nat) \<in> {1..8} \<and> 3 < spec_min_window 2 - 1 \<and>
   2 \<notin> set (checkNelsonRules (map Fin [1, 2, 3, 4, 5]) (Fin 100) (Fin 1) ! 3)"
proof -
  have h1: "3 < length (map Fin [1, 2, 3, 4, 5])" by simp
  have h2: "(2::nat) \<in> {1..8}" by simp
  have h3: "3 < spec_min_window 2 - 1" by (simp add: spec_min_window_def)
  show ?thesis
    using h1 h2 h3 window_minimums [OF h1 h2 h3] by blast
qed

section \<open>Rule 1\<close>

text \<open>
  Claim C6. Every index \<open>i\<close> of the input is flagged by rule 1 exactly when
  \<open>Math.abs(data[i] - mean) > 3 * sd\<close>; the comparison is strict, so a point whose
  distance from the mean is exactly three standard deviations is not flagged. Rule 1 is
  tested at every index, from the first one.
\<close>

theorem rule1_flag:
  "i < length data \<Longrightarrow>
   (1 \<in> set (checkNelsonRules data mean sdev ! i) \<longleftrightarrow>
      jgt (math_abs (jsub (data ! i) mean)) (jmul (Fin 3) sdev)) \<and>
   (math_abs (jsub (data ! i) mean) = jmul (Fin 3) sdev \<longrightarrow>
      1 \<notin> set (checkNelsonRules data mean sdev ! i))"
  by (simp add: checkNelsonRules_mem flagged_def rule1_def jgt_def jlt_irrefl)

theorem rule1_flag_witness:
  "1 < length [Fin 10, Fin 40, Fin 41] \<and>
   math_abs (jsub ([Fin 10, Fin 40, Fin 41] ! 1) (Fin 10)) = jmul (Fin 3) (Fin 10) \<and>
   1 \<notin> set (checkNelsonRules [Fin 10, Fin 40, Fin 41] (Fin 10) (Fin 10) ! 1)"
proof -
  have h: "1 < length [Fin 10, Fin 40, Fin 41]" by simp
  have e: "math_abs (jsub ([Fin 10, Fin 40, Fin 41] ! 1) (Fin 10)) = jmul (Fin 3) (Fin 10)"
    by (simp add: jsub_def jmul_def)
  show ?thesis
    using h e rule1_flag [OF h, of "Fin 10" "Fin 10"] by blast
qed


section \<open>Rule 4\<close>

lemma tie_not_opposite:
  assumes "is_finite a" "is_finite b" "mag a = mag b"
  shows "\<not> spec_opposite_sign (jsub a b) e" and "\<not> spec_opposite_sign e (jsub a b)"
  using finite_jsub [OF assms(1,2)] assms(3)
  by (simp_all add: spec_opposite_sign_def finite_jlt_zero finite_jgt_zero)

lemma window_finite_nth:
  "list_all is_finite w \<Longrightarrow> j < length w \<Longrightarrow> is_finite (w ! j)"
  by (simp add: list_all_length)

lemma finite_window_alternates:
  assumes len: "length w = 14" and fin: "list_all is_finite w"
  shows "(\<forall>j\<in>{2..<14}. product_not_ge_zero w j) \<longleftrightarrow> spec_alternates w"
proof -
  have "product_not_ge_zero w j \<longleftrightarrow>
        spec_opposite_sign (jsub (w ! j) (w ! (j - 1))) (jsub (w ! (j - 1)) (w ! (j - 2)))"
    if "j \<in> {2..<14}" for j
  proof -
    from that len have "j < length w" "j - 1 < length w" "j - 2 < length w" by auto
    then have "is_finite (w ! j)" "is_finite (w ! (j - 1))" "is_finite (w ! (j - 2))"
      using fin by (simp_all add: window_finite_nth)
    then show ?thesis
      unfolding product_not_ge_zero_def by (rule finite_product_test(1))
  qed
  then show ?thesis
    unfolding spec_alternates_def list_all_iff len set_upt by blast
qed

lemma finite_window_tie:
  assumes len: "length w = 14" and fin: "list_all is_finite w"
    and j: "j \<in> {1..<14}" and tie: "mag (w ! j) = mag (w ! (j - 1))"
  shows "\<not> spec_alternates w"
proof -
  from j len have "j < length w" "j - 1 < length w" by auto
  then have fj: "is_finite (w ! j)" "is_finite (w ! (j - 1))"
    using fin by (simp_all add: window_finite_nth)
  show ?thesis
  proof (cases "j = 1")
    case True
    then have "\<not> spec_opposite_sign (jsub (w ! 2) (w ! (2 - 1))) (jsub (w ! (2 - 1)) (w ! (2 - 2)))"
      using tie_not_opposite(2) [OF fj tie] by simp
    moreover have "(2::nat) \<in> set [2..<length w]" unfolding set_upt using len by simp
    ultimately show ?thesis
      unfolding spec_alternates_def list_all_iff by blast
  next
    case False
    then have "\<not> spec_opposite_sign (jsub (w ! j) (w ! (j - 1))) (jsub (w ! (j - 1)) (w ! (j - 2)))"
      using tie_not_opposite(1) [OF fj tie] by simp
    moreover have "j \<in> set [2..<length w]" unfolding set_upt using len j False by auto
    ultimately show ?thesis
      unfolding spec_alternates_def list_all_iff by blast
  qed
qed

text \<open>
  Claim C5, as amended. Index \<open>i\<close> is flagged by rule 4 exactly when \<open>i \<ge> 13\<close> and, in
  the 14-point window ending at \<open>i\<close>, no product of two successive differences is
  \<open>>= 0\<close> (each product is negative or NaN). When the 14 values of the window are
  finite (and the arithmetic on them exact), this is the same as: the sign of each
  successive difference is strictly opposite to the sign of the previous one, so that
  two equal consecutive values break the pattern. No index before the 14th point is
  flagged by rule 4.
\<close>

theorem rule4_flag:
  "i < length data \<Longrightarrow>
   (4 \<in> set (checkNelsonRules data mean sdev ! i) \<longleftrightarrow>
      13 \<le> i \<and> (\<forall>j\<in>{2..<14}. product_not_ge_zero (js_slice data (i - 13) (i + 1)) j)) \<and>
   (13 \<le> i \<and> list_all is_finite (js_slice data (i - 13) (i + 1)) \<longrightarrow>
      (4 \<in> set (checkNelsonRules data mean sdev ! i) \<longleftrightarrow>
         spec_alternates (js_slice data (i - 13) (i + 1)))) \<and>
   (13 \<le> i \<and> list_all is_finite (js_slice data (i - 13) (i + 1)) \<and>
    (\<exists>j\<in>{1..<14}. mag (js_slice data (i - 13) (i + 1) ! j) = mag (js_slice data (i - 13) (i + 1) ! (j - 1))) \<longrightarrow>
      4 \<notin> set (checkNelsonRules data mean sdev ! i)) \<and>
   (i < 13 \<longrightarrow> 4 \<notin> set (checkNelsonRules data mean sdev ! i))"
proof -
  assume i: "i < length data"
  define w where "w = js_slice data (i - 13) (i + 1)"
  have mem: "4 \<in> set (checkNelsonRules data mean sdev ! i) \<longleftrightarrow> 13 \<le> i \<and> rule4 data i"
    by (simp add: checkNelsonRules_mem [OF i] flagged_def)
  have main: "4 \<in> set (checkNelsonRules data mean sdev ! i) \<longleftrightarrow>
      13 \<le> i \<and> (\<forall>j\<in>{2..<14}. product_not_ge_zero w j)"
    using rule4_iff [OF _ i] mem unfolding w_def by blast
  have len: "length w = 14" if "13 \<le> i"
    using length_window [OF that i] by (simp add: w_def)
  have fin: "4 \<in> set (checkNelsonRules data mean sdev ! i) \<longleftrightarrow> spec_alternates w"
    if "13 \<le> i" "list_all is_finite w"
    using main finite_window_alternates [OF len [OF that(1)] that(2)] that(1) by simp
  have tie: "4 \<notin> set (checkNelsonRules data mean sdev ! i)"
    if "13 \<le> i" "list_all is_finite w" "\<exists>j\<in>{1..<14}. mag (w ! j) = mag (w ! (j - 1))"
    using fin [OF that(1,2)] finite_window_tie [OF len [OF that(1)] that(2)] that(3) by blast
  have early: "4 \<notin> set (checkNelsonRules data mean sdev ! i)" if "i < 13"
    using mem that by simp
  show ?thesis
    using main fin tie early unfolding w_def by blast
qed

theorem rule4_flag_witness:
  "13 < length (map Fin [1, 5, 1, 5, 1, 5, 1, 5, 1, 5, 1, 5, 1, 5]) \<and>
   list_all is_finite (js_slice (map Fin [1, 5, 1, 5, 1, 5, 1, 5, 1, 5, 1, 5, 1, 5]) (13 - 13) (13 + 1)) \<and>
   spec_alternates (js_slice (map Fin [1, 5, 1, 5, 1, 5, 1, 5, 1, 5, 1, 5, 1, 5]) (13 - 13) (13 + 1)) \<and>
   4 \<in> set (checkNelsonRules (map Fin [1, 5, 1, 5, 1, 5, 1, 5, 1, 5, 1, 5, 1, 5]) (Fin 3) (Fin 2) ! 13)"
proof -
  have h: "13 < length (map Fin [1, 5, 1, 5, 1, 5, 1, 5, 1, 5, 1, 5, 1, 5])" by simp
  have f: "list_all is_finite (js_slice (map Fin [1, 5, 1, 5, 1, 5, 1, 5, 1, 5, 1, 5, 1, 5]) (13 - 13) (13 + 1))"
    by code_simp
  have a: "spec_alternates (js_slice (map Fin [1, 5, 1, 5, 1, 5, 1, 5, 1, 5, 1, 5, 1, 5]) (13 - 13) (13 + 1))"
    by code_simp
  have le: "(13::nat) \<le> 13" by simp
  show ?thesis
    using h f a le rule4_flag [OF h, of "Fin 3" "Fin 2"] by blast
qed

text \<open>
  Claim C5 as it was stated fails on a window of NaN values: every difference and every
  product is NaN, no comparison \<open>>= 0\<close> holds, and index 13 is flagged although no
  difference has a sign.
\<close>

theorem rule4_nan_counterexample:
  "4 \<in> set (checkNelsonRules [NaN, NaN, NaN, NaN, NaN, NaN, NaN, NaN, NaN, NaN, NaN, NaN, NaN, NaN]
              (Fin 0) (Fin 1) ! 13) \<and>
   \<not> spec_alternates (js_slice [NaN, NaN, NaN, NaN, NaN, NaN, NaN, NaN, NaN, NaN, NaN, NaN, NaN, NaN]
                        (13 - 13) (13 + 1))"
  by code_simp

section \<open>Statistics\<close>

text \<open>
  Claim C8. \<open>calcStats\<close> on an empty array is a call like any other and returns
  \<open>{avg: NaN, sd: NaN, rsd: NaN}\<close>: the sum of nothing is 0 and \<open>0 / 0\<close> is NaN.
\<close>

theorem calcStats_empty: "calcStats [] = \<lparr>avg = NaN, sd = NaN, rsd = NaN\<rparr>"
  by (simp add: calcStats_def js_length_def jdiv_def jmul_def)

lemma calcStats_fields:
  "rsd (calcStats arr) = jmul (jdiv (sd (calcStats arr)) (avg (calcStats arr))) (Fin 100)"
  by (simp add: calcStats_def Let_def)

lemma rsd_zero_mean:
  "is_zero m \<Longrightarrow>
   jmul (jdiv s m) (Fin 100) = NaN \<longleftrightarrow> is_nan s \<or> is_zero s"
  "is_zero m \<Longrightarrow> \<not> is_nan s \<Longrightarrow> \<not> is_zero s \<Longrightarrow> is_inf (jmul (jdiv s m) (Fin 100))"
  by (cases s; cases m; simp add: jdiv_def jmul_def inf_of_def zero_of_def)+

lemma rsd_finite:
  "is_finite m \<Longrightarrow> \<not> is_zero m \<Longrightarrow> is_finite s \<Longrightarrow>
   is_finite (jmul (jdiv s m) (Fin 100)) \<and> mag (jmul (jdiv s m) (Fin 100)) = 100 * mag s / mag m"
  by (cases s; cases m; simp add: jdiv_def jmul_def inf_of_def zero_of_def is_finite_def)

text \<open>
  Claim C3, as amended. For every array, \<open>rsd\<close> is \<open>(sd / avg) * 100\<close> and nothing is
  thrown. When \<open>avg\<close> and \<open>sd\<close> are finite and \<open>avg\<close> is not zero, this is the number
  \<open>100 * sd / avg\<close> (exact arithmetic). When \<open>avg\<close> is zero, the result is NaN exactly when
  \<open>sd\<close> is zero or NaN, and an infinity otherwise.
\<close>

theorem calcStats_rsd:
  "rsd (calcStats arr) = jmul (jdiv (sd (calcStats arr)) (avg (calcStats arr))) (Fin 100) \<and>
   (is_finite (avg (calcStats arr)) \<and> \<not> is_zero (avg (calcStats arr)) \<and> is_finite (sd (calcStats arr)) \<longrightarrow>
      is_finite (rsd (calcStats arr)) \<and>
      mag (rsd (calcStats arr)) = 100 * mag (sd (calcStats arr)) / mag (avg (calcStats arr))) \<and>
   (is_zero (avg (calcStats arr)) \<longrightarrow>
      (rsd (calcStats arr) = NaN \<longleftrightarrow> is_nan (sd (calcStats arr)) \<or> is_zero (sd (calcStats arr))) \<and>
      (\<not> is_nan (sd (calcStats arr)) \<and> \<not> is_zero (sd (calcStats arr)) \<longrightarrow> is_inf (rsd (calcStats arr))))"
  unfolding calcStats_fields [of arr]
  using rsd_zero_mean [of "avg (calcStats arr)" "sd (calcStats arr)"]
    rsd_finite [of "avg (calcStats arr)" "sd (calcStats arr)"]
  by blast

lemma calcStats_minus_one_one:
  "calcStats [Fin (- 1), Fin 1] = \<lparr>avg = Fin 0, sd = Fin 1, rsd = PInf\<rparr>"
  by (simp add: calcStats_def js_length_def jdiv_def jmul_def jsub_def inf_of_def zero_of_def)

lemma calcStats_one_three:
  "calcStats [Fin 1, Fin 3] = \<lparr>avg = Fin 2, sd = Fin 1, rsd = Fin 50\<rparr>"
  by (simp add: calcStats_def js_length_def jdiv_def jmul_def jsub_def inf_of_def zero_of_def)

theorem calcStats_rsd_witness:
  "is_zero (avg (calcStats [Fin (- 1), Fin 1])) \<and>
   \<not> is_nan (sd (calcStats [Fin (- 1), Fin 1])) \<and> \<not> is_zero (sd (calcStats [Fin (- 1), Fin 1])) \<and>
   is_inf (rsd (calcStats [Fin (- 1), Fin 1])) \<and>
   is_finite (avg (calcStats [Fin 1, Fin 3])) \<and> \<not> is_zero (avg (calcStats [Fin 1, Fin 3])) \<and>
   is_finite (sd (calcStats [Fin 1, Fin 3])) \<and>
   mag (rsd (calcStats [Fin 1, Fin 3])) = 100 * mag (sd (calcStats [Fin 1, Fin 3])) / mag (avg (calcStats [Fin 1, Fin 3]))"
proof -
  have a: "is_zero (avg (calcStats [Fin (- 1), Fin 1]))"
    "\<not> is_nan (sd (calcStats [Fin (- 1), Fin 1]))" "\<not> is_zero (sd (calcStats [Fin (- 1), Fin 1]))"
    by (simp_all add: calcStats_minus_one_one)
  have b: "is_finite (avg (calcStats [Fin 1, Fin 3]))" "\<not> is_zero (avg (calcStats [Fin 1, Fin 3]))"
    "is_finite (sd (calcStats [Fin 1, Fin 3]))"
    by (simp_all add: calcStats_one_three is_finite_def)
  show ?thesis
    using a b calcStats_rsd [of "[Fin (- 1), Fin 1]"] calcStats_rsd [of "[Fin 1, Fin 3]"]
    by blast
qed

text \<open>
  Claim C3 as it was stated fails on \<open>[-1, 1]\<close>: the mean is 0, the standard deviation is
  1, and \<open>(1 / 0) * 100\<close> is \<open>Infinity\<close>, not NaN.
\<close>

theorem rsd_zero_mean_counterexample:
  "is_zero (avg (calcStats [Fin (- 1), Fin 1])) \<and> rsd (calcStats [Fin (- 1), Fin 1]) = PInf \<and>
   \<not> is_nan (rsd (calcStats [Fin (- 1), Fin 1]))"
  by (simp add: calcStats_def js_length_def jdiv_def jmul_def jsub_def inf_of_def zero_of_def)

section \<open>Loading the series\<close>

text \<open>
  Claim C2. The startup load \<open>readExcelFile\<close> never throws: whatever the file is, either
  the \<open>try\<close> block returns a series and that series is the result, or it throws and the
  result is the fallback. When the file is missing, and when reading it fails, the result
  is the same fixed series of five samples, ids 1 to 5 with weights 27.2, 26.8, 27.5, 26.5,
  27.8 and hardnesses 10.1, 9.8, 10.3, 9.5, 10.8.
\<close>

theorem readExcelFile_fallback:
  "readExcelFile Missing =
     [\<lparr>sample_id = JNum (Fin 1), weight = Fin 27.2, hardness = Fin 10.1\<rparr>,
      \<lparr>sample_id = JNum (Fin 2), weight = Fin 26.8, hardness = Fin 9.8\<rparr>,
      \<lparr>sample_id = JNum (Fin 3), weight = Fin 27.5, hardness = Fin 10.3\<rparr>,
      \<lparr>sample_id = JNum (Fin 4), weight = Fin 26.5, hardness = Fin 9.5\<rparr>,
      \<lparr>sample_id = JNum (Fin 5), weight = Fin 27.8, hardness = Fin 10.8\<rparr>] \<and>
   readExcelFile (Unreadable msg) = readExcelFile Missing \<and>
   ((\<exists>d. readExcelFile_try f = Inr d \<and> readExcelFile f = d) \<or>
    (\<exists>m. readExcelFile_try f = Inl m \<and> readExcelFile f = readExcelFile Missing))"
  by (cases f) (simp_all add: readExcelFile_def readExcelFile_try_def dummy_not_found_def dummy_on_error_def)

lemma nth_transformedData:
  "i < length jsonData \<Longrightarrow> transformedData jsonData ! i = transform_row (jsonData ! i) i"
  by (simp add: transformedData_def nth_enumerate_eq)

lemma length_transformedData: "length (transformedData jsonData) = length jsonData"
  by (simp add: transformedData_def)

lemma parseFloat_truthy_num: "num_truthy n \<Longrightarrow> parseFloat (JNum n) = n"
  by (cases n) (simp_all add: num_truthy_def)

lemma cell_number_missing: "\<not> truthy a \<Longrightarrow> \<not> truthy b \<Longrightarrow> cell_number a b = Fin 0"
  by (simp add: cell_number_def js_or_def num_truthy_def)

lemma cell_number_first: "truthy a \<Longrightarrow> cell_number a b = parseFloat a"
  by (simp add: cell_number_def js_or_def)

lemma cell_number_second: "\<not> truthy a \<Longrightarrow> truthy b \<Longrightarrow> cell_number a b = parseFloat b"
  by (simp add: cell_number_def js_or_def)

text \<open>
  Claim C4, as amended. For every row of the table, at its position \<open>i\<close> (from 0): the
  weight is read from the property named exactly \<open>weight\<close>, or else \<open>Weight\<close>, and the
  hardness from \<open>hardness\<close>, or else \<open>Hardness\<close>; no other spelling is looked at. When
  neither cell is there (or both are falsy) the value is 0; a numeric cell that is not
  zero yields its number and a text cell that parses yields the parsed number. A row
  with no \<open>id\<close> gets \<open>i + 1\<close>, its 1-based position, as id.
\<close>

theorem transformedData_row:
  "i < length jsonData \<Longrightarrow>
   length (transformedData jsonData) = length jsonData \<and>
   (get_prop (jsonData ! i) ''id'' = Undefined \<longrightarrow>
      sample_id (transformedData jsonData ! i) = JNum (Fin (real (i + 1)))) \<and>
   (\<not> truthy (get_prop (jsonData ! i) ''weight'') \<and> \<not> truthy (get_prop (jsonData ! i) ''Weight'') \<longrightarrow>
      weight (transformedData jsonData ! i) = Fin 0) \<and>
   (\<not> truthy (get_prop (jsonData ! i) ''hardness'') \<and> \<not> truthy (get_prop (jsonData ! i) ''Hardness'') \<longrightarrow>
      hardness (transformedData jsonData ! i) = Fin 0) \<and>
   (\<forall>n. num_truthy n \<and>
        (get_prop (jsonData ! i) ''weight'' = JNum n \<or>
         \<not> truthy (get_prop (jsonData ! i) ''weight'') \<and> get_prop (jsonData ! i) ''Weight'' = JNum n) \<longrightarrow>
      weight (transformedData jsonData ! i) = n) \<and>
   (\<forall>n. num_truthy n \<and>
        (get_prop (jsonData ! i) ''hardness'' = JNum n \<or>
         \<not> truthy (get_prop (jsonData ! i) ''hardness'') \<and> get_prop (jsonData ! i) ''Hardness'' = JNum n) \<longrightarrow>
      hardness (transformedData jsonData ! i) = n) \<and>
   (\<forall>t. t \<noteq> [] \<and> \<not> is_nan (parseFloat_str t) \<and>
        (get_prop (jsonData ! i) ''weight'' = JStr t \<or>
         \<not> truthy (get_prop (jsonData ! i) ''weight'') \<and> get_prop (jsonData ! i) ''Weight'' = JStr t) \<longrightarrow>
      weight (transformedData jsonData ! i) = parseFloat_str t) \<and>
   (\<forall>t. t \<noteq> [] \<and> \<not> is_nan (parseFloat_str t) \<and>
        (get_prop (jsonData ! i) ''hardness'' = JStr t \<or>
         \<not> truthy (get_prop (jsonData ! i) ''hardness'') \<and> get_prop (jsonData ! i) ''Hardness'' = JStr t) \<longrightarrow>
      hardness (transformedData jsonData ! i) = parseFloat_str t)"
proof -
  assume i: "i < length jsonData"
  define r where "r = jsonData ! i"
  have w: "weight (transformedData jsonData ! i) = cell_number (get_prop r ''weight'') (get_prop r ''Weight'')"
    and h: "hardness (transformedData jsonData ! i) = cell_number (get_prop r ''hardness'') (get_prop r ''Hardness'')"
    and d: "sample_id (transformedData jsonData ! i) = js_or (get_prop r ''id'') (JNum (Fin (real (i + 1))))"
    by (simp_all add: nth_transformedData [OF i] transform_row_def r_def cell_number_def)
  have "get_prop r ''id'' = Undefined \<longrightarrow> sample_id (transformedData jsonData ! i) = JNum (Fin (real (i + 1)))"
    by (simp add: d js_or_def)
  moreover have "\<not> truthy a \<and> \<not> truthy b \<longrightarrow> cell_number a b = Fin 0" for a b
    by (simp add: cell_number_missing)
  moreover have "\<forall>n. num_truthy n \<and> (a = JNum n \<or> \<not> truthy a \<and> b = JNum n) \<longrightarrow> cell_number a b = n" for a b
    using cell_number_first [of a b] cell_number_second [of a b] parseFloat_truthy_num
    by (metis truthy.simps(4))
  moreover have "\<forall>t. t \<noteq> [] \<and> \<not> is_nan (parseFloat_str t) \<and> (a = JStr t \<or> \<not> truthy a \<and> b = JStr t)
      \<longrightarrow> cell_number a b = parseFloat_str t" for a b
    using cell_number_first [of a b] cell_number_second [of a b]
    by (metis truthy.simps(5) parseFloat.simps(1))
  ultimately show ?thesis
    unfolding w h r_def [symmetric] by (simp add: length_transformedData)
qed

theorem transformedData_row_witness:
  "1 < length [[(''id'', JNum (Fin 7)), (''weight'', JNum (Fin 27))], [(''Hardness'', JNum (Fin 10))]] \<and>
   sample_id (transformedData [[(''id'', JNum (Fin 7)), (''weight'', JNum (Fin 27))], [(''Hardness'', JNum (Fin 10))]] ! 1)
     = JNum (Fin (real (1 + 1))) \<and>
   weight (transformedData [[(''id'', JNum (Fin 7)), (''weight'', JNum (Fin 27))], [(''Hardness'', JNum (Fin 10))]] ! 1)
     = Fin 0 \<and>
   hardness (transformedData [[(''id'', JNum (Fin 7)), (''weight'', JNum (Fin 27))], [(''Hardness'', JNum (Fin 10))]] ! 1)
     = Fin 10"
proof -
  let ?rows = "[[(''id'', JNum (Fin 7)), (''weight'', JNum (Fin 27))], [(''Hardness'', JNum (Fin 10))]]"
  have h: "1 < length ?rows" by simp
  have c1: "get_prop (?rows ! 1) ''id'' = Undefined"
    by (simp add: get_prop_def)
  have c2: "\<not> truthy (get_prop (?rows ! 1) ''weight'') \<and> \<not> truthy (get_prop (?rows ! 1) ''Weight'')"
    by (simp add: get_prop_def)
  have c3: "num_truthy (Fin 10) \<and>
      (get_prop (?rows ! 1) ''hardness'' = JNum (Fin 10) \<or>
       \<not> truthy (get_prop (?rows ! 1) ''hardness'') \<and> get_prop (?rows ! 1) ''Hardness'' = JNum (Fin 10))"
    by (simp add: get_prop_def num_truthy_def)
  note t = transformedData_row [OF h]
  have "sample_id (transformedData ?rows ! 1) = JNum (Fin (real (1 + 1)))"
    by (rule t [THEN conjunct2, THEN conjunct1, THEN mp, OF c1])
  moreover have "weight (transformedData ?rows ! 1) = Fin 0"
    by (rule t [THEN conjunct2, THEN conjunct2, THEN conjunct1, THEN mp, OF c2])
  moreover have "hardness (transformedData ?rows ! 1) = Fin 10"
    by (rule t [THEN conjunct2, THEN conjunct2, THEN conjunct2, THEN conjunct2, THEN conjunct2,
          THEN conjunct1, THEN spec, THEN mp, OF c3])
  ultimately show ?thesis
    using h by (intro conjI)
qed

text \<open>
  Claim C4 as it was stated fails on a sheet whose weight column is headed \<open>WEIGHT\<close>:
  the header differs from \<open>weight\<close> only by case, yet the cell 5 is not read and the
  weight is 0.
\<close>

theorem column_case_counterexample:
  "weight (transformedData [[(''WEIGHT'', JNum (Fin 5)), (''hardness'', JNum (Fin 10))]] ! 0) = Fin 0 \<and>
   weight (transformedData [[(''WEIGHT'', JNum (Fin 5)), (''hardness'', JNum (Fin 10))]] ! 0) \<noteq> Fin 5"
  by (simp add: transformedData_def enumerate_eq_zip transform_row_def get_prop_def js_or_def num_truthy_def)

text \<open>A text cell that is no number is read as NaN: \<open>parseFloat('abc' || ...)\<close>.\<close>

lemma unparseable_cell_is_nan:
  "weight (transformedData [[(''weight'', JStr ''abc'')]] ! 0) = NaN"
  by (simp add: transformedData_def enumerate_eq_zip transform_row_def get_prop_def js_or_def num_truthy_def
      parseFloat_str_def unsigned_literal_def is_ws_def is_digit_def)

section \<open>Updates and broadcasts\<close>

lemma on_update_data_simps:
  "currentData (on_update_data sock d ok st) = d"
  "sockets (on_update_data sock d ok st) = sockets st"
  "watching (on_update_data sock d ok st) = watching st"
  "inbox (on_update_data sock d ok st) s =
     (if s \<in> sockets st \<and> s \<noteq> sock then inbox st s @ [d] else inbox st s)"
  "disk (on_update_data sock d True st) = Rows (map sample_row d)"
  "changed (on_update_data sock d True st) = True"
  "disk (on_update_data sock d False st) = disk st"
  "changed (on_update_data sock d False st) = changed st"
  by (simp_all add: on_update_data_def writeExcelFile_def emit_to_def Let_def)

lemma on_file_change_simps:
  "watching st \<Longrightarrow> changed st \<Longrightarrow> currentData (on_file_change st) = readExcelFile (disk st)"
  "sockets (on_file_change st) = sockets st"
  "watching st \<Longrightarrow> changed st \<Longrightarrow>
   inbox (on_file_change st) s =
     (if s \<in> sockets st then inbox st s @ [readExcelFile (disk st)] else inbox st s)"
  "\<not> watching st \<Longrightarrow> on_file_change st = st"
  by (simp_all add: on_file_change_def emit_to_def Let_def)

text \<open>With the watcher installed, an update whose write succeeds comes back to its sender
  when the watcher reports the change.\<close>

lemma echo_to_sender:
  "watching st \<Longrightarrow> e1 \<in> sockets st \<Longrightarrow>
   inbox (on_file_change (on_update_data e1 A True st)) e1 =
     inbox st e1 @ [readExcelFile (Rows (map sample_row A))]"
  by (simp add: on_update_data_simps on_file_change_simps)

text \<open>Without the watcher (no file at startup) the sender is left out, whether the
  writes succeed or not.\<close>

lemma no_echo_without_watcher:
  "\<not> watching st \<Longrightarrow> e1 \<in> sockets st \<Longrightarrow> e2 \<in> sockets st \<Longrightarrow> e1 \<noteq> e2 \<Longrightarrow>
   currentData (on_file_change (on_update_data e2 B ok2 (on_file_change (on_update_data e1 A ok1 st)))) = B \<and>
   inbox (on_file_change (on_update_data e2 B ok2 (on_file_change (on_update_data e1 A ok1 st)))) e1
     = inbox st e1 @ [B] \<and>
   inbox (on_file_change (on_update_data e2 B ok2 (on_file_change (on_update_data e1 A ok1 st)))) e2
     = inbox st e2 @ [A]"
  by (simp add: on_update_data_simps on_file_change_simps)

text \<open>A change of the watched file from outside reaches every connected socket.\<close>

lemma external_change_reaches_all:
  "watching st \<Longrightarrow> s \<in> sockets st \<Longrightarrow>
   currentData (on_file_change (external_edit f st)) = readExcelFile f \<and>
   inbox (on_file_change (external_edit f st)) s = inbox st s @ [readExcelFile f]"
  by (simp add: external_edit_def on_file_change_def emit_to_def Let_def)

text \<open>The file written for a series reads back as that series, here for one sample.\<close>

lemma readback_example:
  "readExcelFile (Rows (map sample_row [\<lparr>sample_id = JNum (Fin 1), weight = Fin 28, hardness = Fin 10\<rparr>]))
     = [\<lparr>sample_id = JNum (Fin 1), weight = Fin 28, hardness = Fin 10\<rparr>]"
  by (simp add: readExcelFile_def readExcelFile_try_def transformedData_def enumerate_eq_zip
      transform_row_def sample_row_def get_prop_def js_or_def num_truthy_def)

text \<open>
  Claim C1 says that after \<open>update-data\<close> with \<open>A\<close> from one editor and then with \<open>B\<close>
  from another, \<open>currentData\<close> is \<open>B\<close>, the first editor receives \<open>B\<close> and never its own
  \<open>A\<close>, and the second receives nothing from its own update. The server breaks this when
  the file existed at startup: \<open>writeExcelFile\<close> changes the watched file, and the
  watcher's handler reads it back and emits it to every socket, the sender included.
  Started on an existing (empty) sheet, with sockets 1 and 2 connected, socket 1 sending
  \<open>A\<close> and socket 2 sending \<open>B\<close>, each write followed by the watcher's report:
  \<open>currentData\<close> ends as \<open>B\<close>, but socket 1 has received the greeting, its own \<open>A\<close>,
  \<open>B\<close> and \<open>B\<close> again, and socket 2 the greeting, \<open>A\<close> twice and its own \<open>B\<close>.
\<close>

theorem update_data_echo:
  "currentData
     (on_file_change (on_update_data 2 [\<lparr>sample_id = JNum (Fin 1), weight = Fin 26, hardness = Fin 10\<rparr>] True
       (on_file_change (on_update_data 1 [\<lparr>sample_id = JNum (Fin 1), weight = Fin 28, hardness = Fin 10\<rparr>] True
         (on_connection 2 (on_connection 1 (startup (Rows []))))))))
     = [\<lparr>sample_id = JNum (Fin 1), weight = Fin 26, hardness = Fin 10\<rparr>] \<and>
   inbox
     (on_file_change (on_update_data 2 [\<lparr>sample_id = JNum (Fin 1), weight = Fin 26, hardness = Fin 10\<rparr>] True
       (on_file_change (on_update_data 1 [\<lparr>sample_id = JNum (Fin 1), weight = Fin 28, hardness = Fin 10\<rparr>] True
         (on_connection 2 (on_connection 1 (startup (Rows []))))))))
     1
     = [[],
        [\<lparr>sample_id = JNum (Fin 1), weight = Fin 28, hardness = Fin 10\<rparr>],
        [\<lparr>sample_id = JNum (Fin 1), weight = Fin 26, hardness = Fin 10\<rparr>],
        [\<lparr>sample_id = JNum (Fin 1), weight = Fin 26, hardness = Fin 10\<rparr>]] \<and>
   inbox
     (on_file_change (on_update_data 2 [\<lparr>sample_id = JNum (Fin 1), weight = Fin 26, hardness = Fin 10\<rparr>] True
       (on_file_change (on_update_data 1 [\<lparr>sample_id = JNum (Fin 1), weight = Fin 28, hardness = Fin 10\<rparr>] True
         (on_connection 2 (on_connection 1 (startup (Rows []))))))))
     2
     = [[],
        [\<lparr>sample_id = JNum (Fin 1), weight = Fin 28, hardness = Fin 10\<rparr>],
        [\<lparr>sample_id = JNum (Fin 1), weight = Fin 28, hardness = Fin 10\<rparr>],
        [\<lparr>sample_id = JNum (Fin 1), weight = Fin 26, hardness = Fin 10\<rparr>]]"
  by (simp add: startup_def on_connection_def on_update_data_def writeExcelFile_def on_file_change_def
      emit_to_def Let_def readExcelFile_def readExcelFile_try_def transformedData_def enumerate_eq_zip
      transform_row_def sample_row_def get_prop_def js_or_def num_truthy_def)

section \<open>Editing the table\<close>

lemma or_zero_cases:
  "is_nan n \<Longrightarrow> or_zero n = Fin 0"
  "\<not> is_nan n \<Longrightarrow> num_eq (or_zero n) n"
  by (cases n; simp add: or_zero_def num_truthy_def num_eq_def)+

lemma parseFloat_empty: "parseFloat_str [] = NaN"
  by (simp add: parseFloat_str_def unsigned_literal_def)

lemma with_field_frame:
  "field_of (with_field s k v) k = JNum v"
  "k' \<noteq> k \<Longrightarrow> field_of (with_field s k v) k' = field_of s k'"
  by (cases k; cases k'; simp)+

lemma count_list_filter:
  "P s \<Longrightarrow> count_list (filter P xs) s = count_list xs s"
  by (induction xs) auto

text \<open>
  Claim C10. \<open>updateSample(id, field, value)\<close> keeps the number and the order of the
  samples; in every sample whose id is \<open>=== id\<close> (there may be several) the named field
  becomes \<open>parseFloat(value) || 0\<close> and every other field keeps its value; every other
  sample is unchanged. The new value is 0 when \<open>value\<close> does not parse (the empty string
  does not), and is otherwise equal to the parsed number. \<open>deleteSample(id)\<close> keeps, in
  their order and as often as they occur, exactly the samples whose id is not \<open>=== id\<close>.
\<close>

theorem updateSample_deleteSample_frame:
  "length (updateSample ident k v samples) = length samples \<and>
   (\<forall>i<length samples.
      (js_strict_eq (sample_id (samples ! i)) ident \<longrightarrow>
         field_of (updateSample ident k v samples ! i) k = JNum (or_zero (parseFloat v)) \<and>
         (\<forall>k'. k' \<noteq> k \<longrightarrow>
            field_of (updateSample ident k v samples ! i) k' = field_of (samples ! i) k')) \<and>
      (\<not> js_strict_eq (sample_id (samples ! i)) ident \<longrightarrow>
         updateSample ident k v samples ! i = samples ! i)) \<and>
   (is_nan (parseFloat v) \<longrightarrow> or_zero (parseFloat v) = Fin 0) \<and>
   (\<not> is_nan (parseFloat v) \<longrightarrow> num_eq (or_zero (parseFloat v)) (parseFloat v)) \<and>
   or_zero (parseFloat (JStr [])) = Fin 0 \<and>
   subseq (deleteSample ident samples) samples \<and>
   (\<forall>s\<in>set (deleteSample ident samples). \<not> js_strict_eq (sample_id s) ident) \<and>
   (\<forall>s. \<not> js_strict_eq (sample_id s) ident \<longrightarrow>
      count_list (deleteSample ident samples) s = count_list samples s)"
proof (intro conjI)
  show "length (updateSample ident k v samples) = length samples"
    by (simp add: updateSample_def)
  show "\<forall>i<length samples.
      (js_strict_eq (sample_id (samples ! i)) ident \<longrightarrow>
         field_of (updateSample ident k v samples ! i) k = JNum (or_zero (parseFloat v)) \<and>
         (\<forall>k'. k' \<noteq> k \<longrightarrow>
            field_of (updateSample ident k v samples ! i) k' = field_of (samples ! i) k')) \<and>
      (\<not> js_strict_eq (sample_id (samples ! i)) ident \<longrightarrow>
         updateSample ident k v samples ! i = samples ! i)"
    by (simp add: updateSample_def with_field_frame)
  show "is_nan (parseFloat v) \<longrightarrow> or_zero (parseFloat v) = Fin 0"
    by (simp add: or_zero_cases)
  show "\<not> is_nan (parseFloat v) \<longrightarrow> num_eq (or_zero (parseFloat v)) (parseFloat v)"
    by (simp add: or_zero_cases)
  show "or_zero (parseFloat (JStr [])) = Fin 0"
    by (simp add: parseFloat_empty or_zero_cases)
  show "subseq (deleteSample ident samples) samples"
    by (simp add: deleteSample_def)
  show "\<forall>s\<in>set (deleteSample ident samples). \<not> js_strict_eq (sample_id s) ident"
    by (simp add: deleteSample_def)
  show "\<forall>s. \<not> js_strict_eq (sample_id s) ident \<longrightarrow>
      count_list (deleteSample ident samples) s = count_list samples s"
    by (simp add: deleteSample_def count_list_filter)
qed


theorem updateSample_deleteSample_frame_witness:
  "0 < length [\<lparr>sample_id = JNum (Fin 1), weight = Fin 27, hardness = Fin 10\<rparr>,
               \<lparr>sample_id = JNum (Fin 2), weight = Fin 26, hardness = Fin 9\<rparr>,
               \<lparr>sample_id = JNum (Fin 1), weight = Fin 25, hardness = Fin 8\<rparr>] \<and>
   js_strict_eq (sample_id ([\<lparr>sample_id = JNum (Fin 1), weight = Fin 27, hardness = Fin 10\<rparr>,
               \<lparr>sample_id = JNum (Fin 2), weight = Fin 26, hardness = Fin 9\<rparr>,
               \<lparr>sample_id = JNum (Fin 1), weight = Fin 25, hardness = Fin 8\<rparr>] ! 0)) (JNum (Fin 1)) \<and>
   K_hardness \<noteq> K_weight \<and>
   \<not> is_nan (parseFloat (JStr ''27.5'')) \<and>
   field_of (updateSample (JNum (Fin 1)) K_weight (JStr ''27.5'')
              [\<lparr>sample_id = JNum (Fin 1), weight = Fin 27, hardness = Fin 10\<rparr>,
               \<lparr>sample_id = JNum (Fin 2), weight = Fin 26, hardness = Fin 9\<rparr>,
               \<lparr>sample_id = JNum (Fin 1), weight = Fin 25, hardness = Fin 8\<rparr>] ! 0) K_weight
     = JNum (or_zero (parseFloat (JStr ''27.5''))) \<and>
   field_of (updateSample (JNum (Fin 1)) K_weight (JStr ''27.5'')
              [\<lparr>sample_id = JNum (Fin 1), weight = Fin 27, hardness = Fin 10\<rparr>,
               \<lparr>sample_id = JNum (Fin 2), weight = Fin 26, hardness = Fin 9\<rparr>,
               \<lparr>sample_id = JNum (Fin 1), weight = Fin 25, hardness = Fin 8\<rparr>] ! 0) K_hardness
     = JNum (Fin 10) \<and>
   num_eq (or_zero (parseFloat (JStr ''27.5''))) (parseFloat (JStr ''27.5'')) \<and>
   subseq (deleteSample (JNum (Fin 1))
              [\<lparr>sample_id = JNum (Fin 1), weight = Fin 27, hardness = Fin 10\<rparr>,
               \<lparr>sample_id = JNum (Fin 2), weight = Fin 26, hardness = Fin 9\<rparr>,
               \<lparr>sample_id = JNum (Fin 1), weight = Fin 25, hardness = Fin 8\<rparr>])
          [\<lparr>sample_id = JNum (Fin 1), weight = Fin 27, hardness = Fin 10\<rparr>,
           \<lparr>sample_id = JNum (Fin 2), weight = Fin 26, hardness = Fin 9\<rparr>,
           \<lparr>sample_id = JNum (Fin 1), weight = Fin 25, hardness = Fin 8\<rparr>]"
proof -
  let ?S = "[\<lparr>sample_id = JNum (Fin 1), weight = Fin 27, hardness = Fin 10\<rparr>,
             \<lparr>sample_id = JNum (Fin 2), weight = Fin 26, hardness = Fin 9\<rparr>,
             \<lparr>sample_id = JNum (Fin 1), weight = Fin 25, hardness = Fin 8\<rparr>]"
  have h: "0 < length ?S" "js_strict_eq (sample_id (?S ! 0)) (JNum (Fin 1))" "K_hardness \<noteq> K_weight"
    by (simp_all add: num_eq_def)
  have p: "parseFloat (JStr ''27.5'') = Fin 27.5"
    by code_simp
  have n: "\<not> is_nan (parseFloat (JStr ''27.5''))"
    by (simp only: p is_nan.simps) simp
  have f: "field_of (?S ! 0) K_hardness = JNum (Fin 10)" by simp
  show ?thesis
    using h n f updateSample_deleteSample_frame [of "JNum (Fin 1)" K_weight "JStr ''27.5''" ?S]
    by metis
qed

end
